theory Spec2Isabelle
  imports Complex_Main "HOL-Library.Char_ord" "HOL-Library.List_Lexorder"
begin

section \<open>Data model of backend/server.py\<close>

text \<open>
  Amounts and balances are Python floats in the source. They are modelled as exact
  reals: every theorem below is about the arithmetic the handlers write down, not
  about IEEE rounding.
\<close>

datatype TransactionType = INCOME | EXPENSE | TRANSFER

text \<open>
  A \<open>datetime\<close> value: the calendar fields and the UTC offset in minutes
  (\<open>None\<close> for a naive datetime).
\<close>

record datetime =
  dt_year :: nat
  dt_month :: nat
  dt_day :: nat
  dt_hour :: nat
  dt_minute :: nat
  dt_second :: nat
  dt_microsecond :: nat
  dt_tzinfo :: "int option"

text \<open>
  The user document. The fields \<open>password_hash\<close>, \<open>created_at\<close> and
  \<open>last_login\<close> are read by no transaction or report handler and are left out.
\<close>

record user =
  u_id :: string
  u_email :: string
  u_full_name :: string
  u_total_balance :: real
  u_is_active :: bool

record category =
  c_id :: string
  c_user_id :: string
  c_name :: string
  c_description :: "string option"
  c_icon :: "string option"
  c_budget_limit :: "real option"
  c_is_active :: bool
  c_created_at :: string

text \<open>
  class Transaction. The type parameter is the representation of the two timestamps:
  \<open>datetime\<close> in the pydantic object, the ISO-8601 text in the stored document.
\<close>

record 'd Transaction =
  t_id :: string
  t_user_id :: string
  t_created_at :: 'd
  t_is_active :: bool
  t_amount :: real
  t_description :: string
  t_type :: TransactionType
  t_category_id :: "string option"
  t_transaction_date :: 'd
  t_notes :: "string option"

text \<open>
  class TransactionCreate: \<open>transaction_date\<close> is always present in the parsed
  object (its default factory has already run).
\<close>

record TransactionCreate =
  tc_amount :: real
  tc_description :: string
  tc_type :: TransactionType
  tc_category_id :: "string option"
  tc_transaction_date :: datetime
  tc_notes :: "string option"

record TransactionUpdate =
  tu_amount :: "real option"
  tu_description :: "string option"
  tu_type :: "TransactionType option"
  tu_category_id :: "string option"
  tu_transaction_date :: "datetime option"
  tu_notes :: "string option"

text \<open>The three MongoDB collections, each a sequence of documents in insertion order.\<close>

record database =
  users :: "user list"
  categories :: "category list"
  transactions :: "string Transaction list"

datatype error =
  CategoryNotFound | TransactionNotFound | ValidationError | ResponseValidationError
| ValueError

subsection \<open>Field constraints of the pydantic models\<close>

definition TransactionCreate_valid :: "TransactionCreate \<Rightarrow> bool" where
  "TransactionCreate_valid d = (0 < tc_amount d \<and> 1 \<le> length (tc_description d))"

definition TransactionUpdate_valid :: "TransactionUpdate \<Rightarrow> bool" where
  "TransactionUpdate_valid d =
     ((case tu_amount d of None \<Rightarrow> True | Some a \<Rightarrow> 0 < a) \<and>
      (case tu_description d of None \<Rightarrow> True | Some s \<Rightarrow> 1 \<le> length s))"

definition Transaction_valid :: "'d Transaction \<Rightarrow> bool" where
  "Transaction_valid t = (0 < t_amount t \<and> 1 \<le> length (t_description t))"

section \<open>Store operations\<close>

fun find_one :: "('a \<Rightarrow> bool) \<Rightarrow> 'a list \<Rightarrow> 'a option" where
  "find_one q [] = None"
| "find_one q (x # xs) = (if q x then Some x else find_one q xs)"

text \<open>\<open>update_one\<close> changes the first document that matches, and only that one.\<close>

fun update_one :: "('a \<Rightarrow> bool) \<Rightarrow> ('a \<Rightarrow> 'a) \<Rightarrow> 'a list \<Rightarrow> 'a list" where
  "update_one q f [] = []"
| "update_one q f (x # xs) = (if q x then f x # xs else x # update_one q f xs)"

definition insert_one :: "'a \<Rightarrow> 'a list \<Rightarrow> 'a list" where
  "insert_one x xs = xs @ [x]"

definition inc_total_balance :: "real \<Rightarrow> user \<Rightarrow> user" where
  "inc_total_balance x u = u\<lparr>u_total_balance := u_total_balance u + x\<rparr>"

section \<open>ISO-8601 text of a datetime\<close>

definition digit_char :: "nat \<Rightarrow> char" where
  "digit_char n = char_of (48 + n mod 10)"

fun decimal :: "nat \<Rightarrow> string" where
  "decimal n = (if n < 10 then [digit_char n] else decimal (n div 10) @ [digit_char n])"

declare decimal.simps [simp del]

text \<open>The format \<open>%0wd\<close>: at least \<open>w\<close> digits, padded with zeros on the left.\<close>

definition zero_pad :: "nat \<Rightarrow> nat \<Rightarrow> string" where
  "zero_pad w n = replicate (w - length (decimal n)) (CHR ''0'') @ decimal n"

definition format_offset :: "int option \<Rightarrow> string" where
  "format_offset tz =
     (case tz of
        None \<Rightarrow> []
      | Some off \<Rightarrow>
          (if off < 0 then ''-'' else ''+'') @
          zero_pad 2 (nat \<bar>off\<bar> div 60) @ '':'' @ zero_pad 2 (nat \<bar>off\<bar> mod 60))"

definition isoformat :: "datetime \<Rightarrow> string" where
  "isoformat d =
     zero_pad 4 (dt_year d) @ ''-'' @ zero_pad 2 (dt_month d) @ ''-'' @ zero_pad 2 (dt_day d) @
     ''T'' @ zero_pad 2 (dt_hour d) @ '':'' @ zero_pad 2 (dt_minute d) @ '':'' @
     zero_pad 2 (dt_second d) @
     (if dt_microsecond d \<noteq> 0 then ''.'' @ zero_pad 6 (dt_microsecond d) else []) @
     format_offset (dt_tzinfo d)"

section \<open>Transaction routes\<close>

text \<open>
  Every handler takes the database and returns it with the outcome, so that what a
  failed request leaves behind is part of the result. \<open>uid\<close> is
  \<open>current_user['id']\<close>; \<open>new_id\<close> and \<open>now\<close> are what
  \<open>uuid.uuid4()\<close> and \<open>datetime.now(timezone.utc)\<close> return inside the
  constructor of \<open>Transaction\<close>.
\<close>

definition model_dump :: "datetime Transaction \<Rightarrow> string Transaction" where
  "model_dump t =
     \<lparr>t_id = t_id t, t_user_id = t_user_id t, t_created_at = isoformat (t_created_at t),
      t_is_active = t_is_active t, t_amount = t_amount t, t_description = t_description t,
      t_type = t_type t, t_category_id = t_category_id t,
      t_transaction_date = isoformat (t_transaction_date t), t_notes = t_notes t\<rparr>"

definition truthy :: "string option \<Rightarrow> bool" where
  "truthy s = (case s of None \<Rightarrow> False | Some v \<Rightarrow> v \<noteq> [])"

definition create_transaction ::
  "database \<Rightarrow> string \<Rightarrow> string \<Rightarrow> datetime \<Rightarrow> TransactionCreate \<Rightarrow>
     database \<times> (error + datetime Transaction)" where
  "create_transaction db uid new_id now transaction_data =
     (if truthy (tc_category_id transaction_data) \<and>
         find_one (\<lambda>c. Some (c_id c) = tc_category_id transaction_data \<and>
                        c_user_id c = uid \<and> c_is_active c) (categories db) = None
      then (db, Inl CategoryNotFound)
      else
        let transaction =
              \<lparr>t_id = new_id, t_user_id = uid, t_created_at = now, t_is_active = True,
               t_amount = tc_amount transaction_data,
               t_description = tc_description transaction_data,
               t_type = tc_type transaction_data,
               t_category_id = tc_category_id transaction_data,
               t_transaction_date = tc_transaction_date transaction_data,
               t_notes = tc_notes transaction_data\<rparr>
        in if \<not> Transaction_valid transaction then (db, Inl ValidationError)
           else
             let db1 = db\<lparr>transactions := insert_one (model_dump transaction) (transactions db)\<rparr>;
                 balance_change0 =
                   (if t_type transaction = INCOME then t_amount transaction
                    else - t_amount transaction);
                 balance_change =
                   (if t_type transaction = TRANSFER then 0 else balance_change0);
                 db2 = db1\<lparr>users :=
                         update_one (\<lambda>u. u_id u = uid) (inc_total_balance balance_change)
                           (users db1)\<rparr>
             in (db2, Inr transaction))"

text \<open>
  \<open>update_data\<close>: the fields of the request that are not \<open>None\<close>; the
  \<open>$set\<close> of MongoDB and \<open>dict.update\<close> both overwrite exactly those.
\<close>

definition update_data_nonempty :: "TransactionUpdate \<Rightarrow> bool" where
  "update_data_nonempty d =
     (tu_amount d \<noteq> None \<or> tu_description d \<noteq> None \<or> tu_type d \<noteq> None \<or>
      tu_category_id d \<noteq> None \<or> tu_transaction_date d \<noteq> None \<or> tu_notes d \<noteq> None)"

definition set_fields :: "TransactionUpdate \<Rightarrow> string Transaction \<Rightarrow> string Transaction" where
  "set_fields d t =
     t\<lparr>t_amount := (case tu_amount d of None \<Rightarrow> t_amount t | Some v \<Rightarrow> v),
       t_description := (case tu_description d of None \<Rightarrow> t_description t | Some v \<Rightarrow> v),
       t_type := (case tu_type d of None \<Rightarrow> t_type t | Some v \<Rightarrow> v),
       t_category_id := (case tu_category_id d of None \<Rightarrow> t_category_id t | Some v \<Rightarrow> Some v),
       t_transaction_date :=
         (case tu_transaction_date d of None \<Rightarrow> t_transaction_date t
          | Some v \<Rightarrow> isoformat v),
       t_notes := (case tu_notes d of None \<Rightarrow> t_notes t | Some v \<Rightarrow> Some v)\<rparr>"

text \<open>
  The handler returns \<open>Transaction(**transaction)\<close>, built from the document it
  read and patched; the model returns that document, with the timestamps as the
  stored text. The constructor re-validates the fields, which is the last branch.
\<close>

definition update_transaction ::
  "database \<Rightarrow> string \<Rightarrow> string \<Rightarrow> TransactionUpdate \<Rightarrow>
     database \<times> (error + string Transaction)" where
  "update_transaction db uid transaction_id transaction_data =
     (case find_one (\<lambda>t. t_id t = transaction_id \<and> t_user_id t = uid \<and> t_is_active t)
             (transactions db) of
        None \<Rightarrow> (db, Inl TransactionNotFound)
      | Some transaction0 \<Rightarrow>
          let old_amount = t_amount transaction0;
              old_type = t_type transaction0;
              db1 = (if update_data_nonempty transaction_data
                     then db\<lparr>transactions :=
                            update_one (\<lambda>t. t_id t = transaction_id)
                              (set_fields transaction_data) (transactions db)\<rparr>
                     else db);
              transaction = (if update_data_nonempty transaction_data
                             then set_fields transaction_data transaction0
                             else transaction0);
              new_amount = t_amount transaction;
              new_type = t_type transaction;
              old_balance_effect =
                (if old_type = INCOME then old_amount
                 else (if old_type = EXPENSE then - old_amount else 0));
              new_balance_effect =
                (if new_type = INCOME then new_amount
                 else (if new_type = EXPENSE then - new_amount else 0));
              balance_adjustment = new_balance_effect - old_balance_effect;
              db2 = (if balance_adjustment \<noteq> 0
                     then db1\<lparr>users :=
                            update_one (\<lambda>u. u_id u = uid)
                              (inc_total_balance balance_adjustment) (users db1)\<rparr>
                     else db1)
          in if Transaction_valid transaction then (db2, Inr transaction)
             else (db2, Inl ResponseValidationError))"

definition delete_transaction ::
  "database \<Rightarrow> string \<Rightarrow> string \<Rightarrow> database \<times> (error + unit)" where
  "delete_transaction db uid transaction_id =
     (case find_one (\<lambda>t. t_id t = transaction_id \<and> t_user_id t = uid \<and> t_is_active t)
             (transactions db) of
        None \<Rightarrow> (db, Inl TransactionNotFound)
      | Some transaction \<Rightarrow>
          let amount = t_amount transaction;
              trans_type = t_type transaction;
              balance_reversal =
                (if trans_type = INCOME then - amount
                 else (if trans_type = EXPENSE then amount else 0));
              db1 = db\<lparr>transactions :=
                      update_one (\<lambda>t. t_id t = transaction_id)
                        (\<lambda>t. t\<lparr>t_is_active := False\<rparr>) (transactions db)\<rparr>;
              db2 = (if balance_reversal \<noteq> 0
                     then db1\<lparr>users :=
                            update_one (\<lambda>u. u_id u = uid)
                              (inc_total_balance balance_reversal) (users db1)\<rparr>
                     else db1)
          in (db2, Inr ()))"

section \<open>The balance in the words of the specification\<close>

text \<open>
  \<open>effect(amount, type)\<close> as the specification defines it: \<open>+amount\<close> for
  income, \<open>-amount\<close> for expense, \<open>0\<close> for transfer.
\<close>

fun effect :: "real \<Rightarrow> TransactionType \<Rightarrow> real" where
  "effect a INCOME = a"
| "effect a EXPENSE = - a"
| "effect a TRANSFER = 0"

text \<open>The \<open>total_balance\<close> of the user document that the handlers increment.\<close>

definition total_balance :: "database \<Rightarrow> string \<Rightarrow> real option" where
  "total_balance db uid = map_option u_total_balance (find_one (\<lambda>u. u_id u = uid) (users db))"

text \<open>The sum of the effects of the active transactions of a user.\<close>

definition active_effects :: "database \<Rightarrow> string \<Rightarrow> real" where
  "active_effects db uid =
     sum_list (map (\<lambda>t. effect (t_amount t) (t_type t))
       (filter (\<lambda>t. t_user_id t = uid \<and> t_is_active t) (transactions db)))"

section \<open>Calendar arithmetic of the datetime module\<close>

definition is_leap :: "nat \<Rightarrow> bool" where
  "is_leap y = (y mod 4 = 0 \<and> (y mod 100 \<noteq> 0 \<or> y mod 400 = 0))"

definition days_in_month :: "nat \<Rightarrow> nat \<Rightarrow> nat" where
  "days_in_month y m =
     (if m = 2 \<and> is_leap y then 29
      else [31, 28, 31, 30, 31, 30, 31, 31, 30, 31, 30, 31] ! (m - 1))"

definition days_before_year :: "nat \<Rightarrow> int" where
  "days_before_year y =
     (let y1 = int y - 1 in y1 * 365 + y1 div 4 - y1 div 100 + y1 div 400)"

definition days_before_month :: "nat \<Rightarrow> nat \<Rightarrow> int" where
  "days_before_month y m =
     int ([0, 31, 59, 90, 120, 151, 181, 212, 243, 273, 304, 334] ! (m - 1)) +
     (if 2 < m \<and> is_leap y then 1 else 0)"

definition toordinal :: "datetime \<Rightarrow> int" where
  "toordinal d =
     days_before_year (dt_year d) + days_before_month (dt_year d) (dt_month d) + int (dt_day d)"

text \<open>The range checks of the \<open>datetime\<close> constructor.\<close>

definition datetime_valid :: "datetime \<Rightarrow> bool" where
  "datetime_valid d =
     (1 \<le> dt_year d \<and> dt_year d \<le> 9999 \<and> 1 \<le> dt_month d \<and> dt_month d \<le> 12 \<and>
      1 \<le> dt_day d \<and> dt_day d \<le> days_in_month (dt_year d) (dt_month d) \<and>
      dt_hour d < 24 \<and> dt_minute d < 60 \<and> dt_second d < 60 \<and> dt_microsecond d < 1000000 \<and>
      (case dt_tzinfo d of None \<Rightarrow> True | Some off \<Rightarrow> - 1440 < off \<and> off < 1440))"

text \<open>
  The instant an aware datetime denotes, in microseconds on the UTC time line; a naive
  datetime denotes none.
\<close>

definition instant :: "datetime \<Rightarrow> int option" where
  "instant d =
     (case dt_tzinfo d of
        None \<Rightarrow> None
      | Some off \<Rightarrow>
          Some ((((toordinal d * 24 + int (dt_hour d)) * 60 + int (dt_minute d) - off) * 60
                  + int (dt_second d)) * 1000000 + int (dt_microsecond d)))"

text \<open>\<open>start <= d < end\<close> on the time line.\<close>

definition in_interval :: "datetime \<Rightarrow> datetime \<Rightarrow> datetime \<Rightarrow> bool" where
  "in_interval start_date end_date d =
     (case (instant start_date, instant d, instant end_date) of
        (Some a, Some x, Some b) \<Rightarrow> a \<le> x \<and> x < b
      | _ \<Rightarrow> False)"

section \<open>Report routes\<close>

record FinancialSummary =
  fs_total_income :: real
  fs_total_expense :: real
  fs_net_balance :: real
  fs_transaction_count :: nat
  fs_month :: nat
  fs_year :: nat

record CategoryExpense =
  ce_category_id :: "string option"
  ce_category_name :: string
  ce_total_amount :: real
  ce_transaction_count :: nat
  ce_percentage :: real

record ExpenseByCategory =
  ebc_expenses :: "CategoryExpense list"
  ebc_total_expense :: real

text \<open>The constraints \<open>Query(None, ge=1, le=12)\<close> and \<open>Query(None, ge=2000, le=2100)\<close>.\<close>

definition Query_valid :: "nat option \<Rightarrow> nat option \<Rightarrow> bool" where
  "Query_valid month year =
     ((case month of None \<Rightarrow> True | Some m \<Rightarrow> 1 \<le> m \<and> m \<le> 12) \<and>
      (case year of None \<Rightarrow> True | Some y \<Rightarrow> 2000 \<le> y \<and> y \<le> 2100))"

text \<open>\<open>x or y\<close> on an optional integer: \<open>None\<close> and \<open>0\<close> are false.\<close>

definition or_else :: "nat option \<Rightarrow> nat \<Rightarrow> nat" where
  "or_else x y = (case x of None \<Rightarrow> y | Some v \<Rightarrow> if v = 0 then y else v)"

text \<open>
  \<open>datetime(year, month, 1, tzinfo=timezone.utc)\<close>; the constructor raises
  \<open>ValueError\<close> outside its ranges.
\<close>

definition first_of_month :: "nat \<Rightarrow> nat \<Rightarrow> datetime option" where
  "first_of_month y m =
     (let d = \<lparr>dt_year = y, dt_month = m, dt_day = 1, dt_hour = 0, dt_minute = 0,
                dt_second = 0, dt_microsecond = 0, dt_tzinfo = Some 0\<rparr>
      in if datetime_valid d then Some d else None)"

definition date_range :: "nat \<Rightarrow> nat \<Rightarrow> (datetime \<times> datetime) option" where
  "date_range target_year target_month =
     (case first_of_month target_year target_month of
        None \<Rightarrow> None
      | Some start_date \<Rightarrow>
          (case (if target_month = 12 then first_of_month (target_year + 1) 1
                 else first_of_month target_year (target_month + 1)) of
             None \<Rightarrow> None
           | Some end_date \<Rightarrow> Some (start_date, end_date)))"

text \<open>\<open>cursor.to_list(n)\<close>: at most the first \<open>n\<close> documents.\<close>

definition to_list :: "nat \<Rightarrow> 'a list \<Rightarrow> 'a list" where
  "to_list n xs = take n xs"

text \<open>
  The filter on \<open>transaction_date\<close> compares the stored text with the text of the
  bounds: \<open>$gte\<close> and \<open>$lt\<close> on strings, byte by byte.
\<close>

definition in_date_range :: "datetime \<Rightarrow> datetime \<Rightarrow> string Transaction \<Rightarrow> bool" where
  "in_date_range start_date end_date t =
     (isoformat start_date \<le> t_transaction_date t \<and>
      t_transaction_date t < isoformat end_date)"

definition get_financial_summary ::
  "database \<Rightarrow> string \<Rightarrow> nat option \<Rightarrow> nat option \<Rightarrow> datetime \<Rightarrow>
     error + FinancialSummary" where
  "get_financial_summary db uid month year now =
     (let target_month = or_else month (dt_month now);
          target_year = or_else year (dt_year now)
      in case date_range target_year target_month of
           None \<Rightarrow> Inl ValueError
         | Some (start_date, end_date) \<Rightarrow>
             let transactions0 =
                   to_list 10000
                     (filter (\<lambda>t. t_user_id t = uid \<and> t_is_active t \<and>
                                   in_date_range start_date end_date t) (transactions db));
                 total_income =
                   sum_list (map t_amount (filter (\<lambda>t. t_type t = INCOME) transactions0));
                 total_expense =
                   sum_list (map t_amount (filter (\<lambda>t. t_type t = EXPENSE) transactions0))
             in Inr \<lparr>fs_total_income = total_income, fs_total_expense = total_expense,
                      fs_net_balance = total_income - total_expense,
                      fs_transaction_count = length transactions0,
                      fs_month = target_month, fs_year = target_year\<rparr>)"

text \<open>
  \<open>category_totals\<close> is a dictionary, which keeps its keys in the order of their
  first insertion: an association list with one entry for each key. The two statements
  of the loop body enter a missing key at the end with \<open>{'amount': 0, 'count': 0}\<close>
  and then add to the entry of the key.
\<close>

fun add_to_totals ::
  "string option \<Rightarrow> real \<Rightarrow> (string option \<times> real \<times> nat) list \<Rightarrow>
     (string option \<times> real \<times> nat) list" where
  "add_to_totals cat_id x [] = [(cat_id, 0 + x, 0 + 1)]"
| "add_to_totals cat_id x ((k, amount, count) # rest) =
     (if k = cat_id then (k, amount + x, count + 1) # rest
      else (k, amount, count) # add_to_totals cat_id x rest)"

definition group_by_category ::
  "string Transaction list \<Rightarrow> (string option \<times> real \<times> nat) list" where
  "group_by_category ts =
     foldl (\<lambda>category_totals t. add_to_totals (t_category_id t) (t_amount t) category_totals)
       [] ts"

text \<open>\<open>{c['id']: c['name'] for c in categories}\<close>: a later document overwrites.\<close>

definition category_map_of :: "category list \<Rightarrow> (string \<rightharpoonup> string)" where
  "category_map_of cs = foldl (\<lambda>m c. m(c_id c \<mapsto> c_name c)) Map.empty cs"

definition category_name_of :: "(string \<rightharpoonup> string) \<Rightarrow> string option \<Rightarrow> string" where
  "category_name_of category_map cat_id =
     (let default = (if truthy cat_id then ''Sem categoria'' else ''Sem categoria'')
      in case cat_id of
           None \<Rightarrow> default
         | Some k \<Rightarrow> (case category_map k of None \<Rightarrow> default | Some name \<Rightarrow> name))"

text \<open>
  \<open>list.sort(key=..., reverse=True)\<close> is stable: descending by the key, equal keys
  in their original order.
\<close>

definition sort_reverse :: "('a \<Rightarrow> real) \<Rightarrow> 'a list \<Rightarrow> 'a list" where
  "sort_reverse key xs = sort_key (\<lambda>x. - key x) xs"

text \<open>The transactions the category report reads.\<close>

definition expense_transactions ::
  "database \<Rightarrow> string \<Rightarrow> datetime \<Rightarrow> datetime \<Rightarrow> string Transaction list" where
  "expense_transactions db uid start_date end_date =
     to_list 10000
       (filter (\<lambda>t. t_user_id t = uid \<and> t_is_active t \<and> t_type t = EXPENSE \<and>
                     in_date_range start_date end_date t) (transactions db))"

text \<open>The list \<open>expenses\<close> before it is sorted.\<close>

definition expense_entries ::
  "(string \<rightharpoonup> string) \<Rightarrow> (string option \<times> real \<times> nat) list \<Rightarrow> CategoryExpense list" where
  "expense_entries category_map category_totals =
     (let total_expense = sum_list (map (\<lambda>(cat_id, amount, count). amount) category_totals)
      in map (\<lambda>(cat_id, amount, count).
                \<lparr>ce_category_id = cat_id,
                 ce_category_name = category_name_of category_map cat_id,
                 ce_total_amount = amount,
                 ce_transaction_count = count,
                 ce_percentage =
                   (if total_expense > 0 then amount / total_expense * 100 else 0)\<rparr>)
           category_totals)"

definition get_expenses_by_category ::
  "database \<Rightarrow> string \<Rightarrow> nat option \<Rightarrow> nat option \<Rightarrow> datetime \<Rightarrow>
     error + ExpenseByCategory" where
  "get_expenses_by_category db uid month year now =
     (let target_month = or_else month (dt_month now);
          target_year = or_else year (dt_year now)
      in case date_range target_year target_month of
           None \<Rightarrow> Inl ValueError
         | Some (start_date, end_date) \<Rightarrow>
             let transactions0 = expense_transactions db uid start_date end_date;
                 categories0 = to_list 1000 (filter (\<lambda>c. c_user_id c = uid) (categories db));
                 category_map = category_map_of categories0;
                 category_totals = group_by_category transactions0;
                 total_expense =
                   sum_list (map (\<lambda>(cat_id, amount, count). amount) category_totals);
                 expenses = expense_entries category_map category_totals
             in Inr \<lparr>ebc_expenses = sort_reverse ce_total_amount expenses,
                      ebc_total_expense = total_expense\<rparr>)"

text \<open>Soft deletion of a category, as \<open>delete_category\<close> writes it.\<close>

definition delete_category :: "database \<Rightarrow> string \<Rightarrow> string \<Rightarrow> database \<times> (error + unit)" where
  "delete_category db uid category_id =
     (if find_one (\<lambda>c. c_id c = category_id \<and> c_user_id c = uid \<and> c_is_active c)
           (categories db) = None
      then (db, Inl CategoryNotFound)
      else (db\<lparr>categories :=
                update_one (\<lambda>c. c_id c = category_id \<and> c_user_id c = uid \<and> c_is_active c)
                  (\<lambda>c. c\<lparr>c_is_active := False\<rparr>) (categories db)\<rparr>, Inr ()))"

section \<open>The month of the specification\<close>

text \<open>
  The window in the words of the specification: the first instant of the month and the
  first instant of the next month, December rolling into January of the next year, and
  the transactions of a user that are active and whose \<open>transaction_date\<close> lies
  in the half-open interval between them on the time line.
\<close>

definition month_start :: "nat \<Rightarrow> nat \<Rightarrow> datetime" where
  "month_start y m = \<lparr>dt_year = y, dt_month = m, dt_day = 1, dt_hour = 0, dt_minute = 0,
     dt_second = 0, dt_microsecond = 0, dt_tzinfo = Some 0\<rparr>"

definition next_month_start :: "nat \<Rightarrow> nat \<Rightarrow> datetime" where
  "next_month_start y m = (if m = 12 then month_start (y + 1) 1 else month_start y (m + 1))"

definition in_month :: "nat \<Rightarrow> nat \<Rightarrow> datetime \<Rightarrow> bool" where
  "in_month y m d = in_interval (month_start y m) (next_month_start y m) d"

definition selected_in_month ::
  "datetime Transaction list \<Rightarrow> string \<Rightarrow> nat \<Rightarrow> nat \<Rightarrow> datetime Transaction list" where
  "selected_in_month ts uid y m =
     filter (\<lambda>t. t_user_id t = uid \<and> t_is_active t \<and> in_month y m (t_transaction_date t)) ts"

section \<open>Auxiliary functions of the proofs\<close>

text \<open>The last \<open>w\<close> decimal digits of a number, and the entry of a key in the totals.\<close>

fun fixed :: "nat \<Rightarrow> nat \<Rightarrow> string" where
  "fixed 0 n = []"
| "fixed (Suc w) n = fixed w (n div 10) @ [digit_char n]"


section \<open>Sequences of requests of one user\<close>

text \<open>
  A request carries what the handler receives; \<open>Create\<close> also carries the
  identifier and the time that the constructor of \<open>Transaction\<close> draws.
\<close>

datatype request =
  Create string datetime TransactionCreate
| Update string TransactionUpdate
| Delete string





section \<open>Example data\<close>

text \<open>The values of backend\_test.py, for the concrete instances of the theorems.\<close>

definition utc :: "int option" where
  "utc = Some 0"

definition noon_15_jan :: datetime where
  "noon_15_jan = \<lparr>dt_year = 2024, dt_month = 1, dt_day = 15, dt_hour = 12, dt_minute = 0,
     dt_second = 0, dt_microsecond = 0, dt_tzinfo = utc\<rparr>"

definition test_user :: user where
  "test_user = \<lparr>u_id = ''u1'', u_email = ''test@example.com'', u_full_name = ''Test User'',
     u_total_balance = 0, u_is_active = True\<rparr>"

definition test_category :: category where
  "test_category = \<lparr>c_id = ''c1'', c_user_id = ''u1'', c_name = ''Test Category'',
     c_description = None, c_icon = None, c_budget_limit = Some 1000, c_is_active = True,
     c_created_at = ''2024-01-15T12:00:00+00:00''\<rparr>"

definition empty_db :: database where
  "empty_db = \<lparr>users = [test_user], categories = [test_category], transactions = []\<rparr>"

definition income_request :: TransactionCreate where
  "income_request = \<lparr>tc_amount = 201 / 2, tc_description = ''Test Income Transaction'',
     tc_type = INCOME, tc_category_id = Some ''c1'', tc_transaction_date = noon_15_jan,
     tc_notes = None\<rparr>"

definition expense_request :: TransactionCreate where
  "expense_request = \<lparr>tc_amount = 201 / 4, tc_description = ''Test Expense Transaction'',
     tc_type = EXPENSE, tc_category_id = Some ''c1'', tc_transaction_date = noon_15_jan,
     tc_notes = None\<rparr>"

definition income_doc :: "string Transaction" where
  "income_doc = \<lparr>t_id = ''t1'', t_user_id = ''u1'', t_created_at = ''2024-01-15T12:00:00+00:00'',
     t_is_active = True, t_amount = 201 / 2, t_description = ''Test Income Transaction'',
     t_type = INCOME, t_category_id = Some ''c1'',
     t_transaction_date = ''2024-01-15T12:00:00+00:00'', t_notes = None\<rparr>"

definition income_db :: database where
  "income_db = \<lparr>users = [test_user\<lparr>u_total_balance := 201 / 2\<rparr>],
     categories = [test_category], transactions = [income_doc]\<rparr>"

definition no_update :: TransactionUpdate where
  "no_update = \<lparr>tu_amount = None, tu_description = None, tu_type = None,
     tu_category_id = None, tu_transaction_date = None, tu_notes = None\<rparr>"

definition expense_doc :: "string Transaction" where
  "expense_doc = \<lparr>t_id = ''t2'', t_user_id = ''u1'', t_created_at = ''2024-01-15T12:00:00+00:00'',
     t_is_active = True, t_amount = 201 / 4, t_description = ''Test Expense Transaction'',
     t_type = EXPENSE, t_category_id = Some ''c1'',
     t_transaction_date = ''2024-01-15T12:00:00+00:00'', t_notes = None\<rparr>"

definition transfer_request :: TransactionCreate where
  "transfer_request = \<lparr>tc_amount = 75, tc_description = ''To savings'',
     tc_type = TRANSFER, tc_category_id = None, tc_transaction_date = noon_15_jan,
     tc_notes = None\<rparr>"

definition blank_category_request :: TransactionCreate where
  "blank_category_request = expense_request\<lparr>tc_category_id := Some []\<rparr>"

definition amount_update :: TransactionUpdate where
  "amount_update = no_update\<lparr>tu_amount := Some (603 / 4),
     tu_description := Some ''Updated Test Transaction'', tu_notes := Some ''Updated notes''\<rparr>"

definition type_update :: TransactionUpdate where
  "type_update = no_update\<lparr>tu_type := Some EXPENSE\<rparr>"

definition category_update :: TransactionUpdate where
  "category_update = no_update\<lparr>tu_category_id := Some ''not-a-category''\<rparr>"

definition test_sequence :: "request list" where
  "test_sequence =
     [Create ''t1'' noon_15_jan income_request, Create ''t2'' noon_15_jan expense_request,
      Update ''t1'' amount_update, Delete ''t1'', Delete ''t1'', Update ''t9'' type_update]"

definition first_jan_2024 :: datetime where
  "first_jan_2024 = \<lparr>dt_year = 2024, dt_month = 1, dt_day = 1, dt_hour = 0, dt_minute = 0,
     dt_second = 0, dt_microsecond = 0, dt_tzinfo = Some 0\<rparr>"

definition first_feb_2024 :: datetime where
  "first_feb_2024 = \<lparr>dt_year = 2024, dt_month = 2, dt_day = 1, dt_hour = 0, dt_minute = 0,
     dt_second = 0, dt_microsecond = 0, dt_tzinfo = Some 0\<rparr>"

definition food_category :: category where
  "food_category = \<lparr>c_id = ''c2'', c_user_id = ''u1'', c_name = ''Food'',
     c_description = None, c_icon = None, c_budget_limit = None, c_is_active = True,
     c_created_at = ''2024-01-15T12:00:00+00:00''\<rparr>"

definition uncategorized_doc :: "string Transaction" where
  "uncategorized_doc = \<lparr>t_id = ''t3'', t_user_id = ''u1'',
     t_created_at = ''2024-01-20T08:30:00+00:00'', t_is_active = True, t_amount = 201 / 2,
     t_description = ''Cash'', t_type = EXPENSE, t_category_id = None,
     t_transaction_date = ''2024-01-20T08:30:00+00:00'', t_notes = None\<rparr>"

definition food_doc :: "string Transaction" where
  "food_doc = \<lparr>t_id = ''t4'', t_user_id = ''u1'',
     t_created_at = ''2024-01-21T19:00:00.250000+00:00'', t_is_active = True, t_amount = 201 / 4,
     t_description = ''Dinner'', t_type = EXPENSE, t_category_id = Some ''c2'',
     t_transaction_date = ''2024-01-21T19:00:00.250000+00:00'', t_notes = None\<rparr>"

text \<open>A store with three expenses and one income in January 2024.\<close>

definition report_db :: database where
  "report_db = \<lparr>users = [test_user\<lparr>u_total_balance := - (201 / 2)\<rparr>],
     categories = [test_category, food_category],
     transactions = [expense_doc, uncategorized_doc, food_doc, income_doc]\<rparr>"

definition orphan_doc :: "string Transaction" where
  "orphan_doc = food_doc\<lparr>t_id := ''t6'', t_category_id := Some ''gone''\<rparr>"

text \<open>A store in which the category of an expense has been soft-deleted.\<close>

definition orphan_db :: database where
  "orphan_db = \<lparr>users = [test_user\<lparr>u_total_balance := - 201\<rparr>],
     categories = [test_category\<lparr>c_is_active := False\<rparr>, food_category],
     transactions = [uncategorized_doc, orphan_doc, expense_doc]\<rparr>"

text \<open>
  A ledger of January 2024 as the pydantic objects the handlers store: an income on the
  first instant of January, an expense and a transfer in the middle of the month, an
  expense on the first instant of February, a soft-deleted income and an income of
  another user.
\<close>

definition ledger_entry ::
  "string \<Rightarrow> string \<Rightarrow> bool \<Rightarrow> real \<Rightarrow> TransactionType \<Rightarrow> datetime \<Rightarrow> datetime Transaction" where
  "ledger_entry i u a x ty d =
     \<lparr>t_id = i, t_user_id = u, t_created_at = noon_15_jan, t_is_active = a, t_amount = x,
      t_description = ''entry'', t_type = ty, t_category_id = None, t_transaction_date = d,
      t_notes = None\<rparr>"

definition january_ledger :: "datetime Transaction list" where
  "january_ledger =
     [ledger_entry ''t1'' ''u1'' True (201 / 2) INCOME first_jan_2024,
      ledger_entry ''t2'' ''u1'' True (201 / 4) EXPENSE noon_15_jan,
      ledger_entry ''t3'' ''u1'' True 75 TRANSFER (noon_15_jan\<lparr>dt_microsecond := 250000\<rparr>),
      ledger_entry ''t4'' ''u1'' True 10 EXPENSE first_feb_2024,
      ledger_entry ''t5'' ''u1'' False 1000 INCOME noon_15_jan,
      ledger_entry ''t6'' ''u2'' True 7 INCOME noon_15_jan]"

definition ledger_db :: database where
  "ledger_db = \<lparr>users = [test_user], categories = [test_category],
     transactions = map model_dump january_ledger\<rparr>"

text \<open>
  An income dated 00:30 on 1 February 2024 at UTC+01:00, which is 23:30 on 31 January
  on the UTC time line.
\<close>

definition half_past_midnight_cet :: datetime where
  "half_past_midnight_cet = \<lparr>dt_year = 2024, dt_month = 2, dt_day = 1, dt_hour = 0,
     dt_minute = 30, dt_second = 0, dt_microsecond = 0, dt_tzinfo = Some 60\<rparr>"

definition offset_db :: database where
  "offset_db = \<lparr>users = [test_user], categories = [],
     transactions =
       [model_dump (ledger_entry ''t1'' ''u1'' True (201 / 2) INCOME half_past_midnight_cet)]\<rparr>"

section \<open>Lemmas about the store operations\<close>

lemma find_one_None_iff: "find_one q xs = None \<longleftrightarrow> (\<forall>x \<in> set xs. \<not> q x)"
  by (induction xs) auto

lemma find_one_Some_D: "find_one q xs = Some x \<Longrightarrow> x \<in> set xs \<and> q x"
  by (induction xs) (auto split: if_splits)


lemma find_one_update_one_same:
  assumes "\<And>x. q (f x) = q x"
  shows "find_one q (update_one q f xs) = map_option f (find_one q xs)"
  using assms by (induction xs) auto





lemma total_balance_transactions_update [simp]:
  "total_balance (db\<lparr>transactions := ts\<rparr>) uid = total_balance db uid"
  by (simp add: total_balance_def)

lemma active_effects_users [simp]:
  "active_effects (db\<lparr>users := us\<rparr>) uid = active_effects db uid"
  by (simp add: active_effects_def)


section \<open>The inline balance expressions are the effect of the specification\<close>


lemma update_inline_effect:
  "(if ty = INCOME then a else (if ty = EXPENSE then - a else 0)) = effect a ty"
  by (cases ty) simp_all


lemma set_fields_keeps [simp]:
  "t_id (set_fields d t) = t_id t" "t_user_id (set_fields d t) = t_user_id t"
  "t_is_active (set_fields d t) = t_is_active t"
  by (simp_all add: set_fields_def)

lemma set_fields_sel:
  "t_amount (set_fields d t) = (case tu_amount d of None \<Rightarrow> t_amount t | Some v \<Rightarrow> v)"
  "t_type (set_fields d t) = (case tu_type d of None \<Rightarrow> t_type t | Some v \<Rightarrow> v)"
  "t_category_id (set_fields d t)
     = (case tu_category_id d of None \<Rightarrow> t_category_id t | Some v \<Rightarrow> Some v)"
  by (simp_all add: set_fields_def)

lemma set_fields_empty:
  "\<not> update_data_nonempty d \<Longrightarrow> set_fields d t = t"
  by (simp add: set_fields_def update_data_nonempty_def)

lemma model_dump_sel [simp]:
  "t_id (model_dump t) = t_id t" "t_user_id (model_dump t) = t_user_id t"
  "t_is_active (model_dump t) = t_is_active t" "t_amount (model_dump t) = t_amount t"
  "t_type (model_dump t) = t_type t" "t_category_id (model_dump t) = t_category_id t"
  "t_description (model_dump t) = t_description t"
  by (simp_all add: model_dump_def)

section \<open>What each handler does to the store\<close>




lemma update_found_fst:
  assumes "find_one (\<lambda>t. t_id t = tid \<and> t_user_id t = uid \<and> t_is_active t)
             (transactions db) = Some t0"
  shows "fst (update_transaction db uid tid d) =
         (let adj = effect (t_amount (set_fields d t0)) (t_type (set_fields d t0))
                      - effect (t_amount t0) (t_type t0);
              db1 = (if update_data_nonempty d
                     then db\<lparr>transactions :=
                            update_one (\<lambda>t. t_id t = tid) (set_fields d) (transactions db)\<rparr>
                     else db)
          in if adj \<noteq> 0
             then db1\<lparr>users := update_one (\<lambda>u. u_id u = uid) (inc_total_balance adj) (users db1)\<rparr>
             else db1)"
  using assms set_fields_empty[of d t0]
  by (auto simp: update_transaction_def Let_def update_inline_effect split: if_splits)

lemma update_found_snd:
  assumes "find_one (\<lambda>t. t_id t = tid \<and> t_user_id t = uid \<and> t_is_active t)
             (transactions db) = Some t0"
  shows "snd (update_transaction db uid tid d) =
         (if Transaction_valid (set_fields d t0) then Inr (set_fields d t0)
          else Inl ResponseValidationError)"
  using assms set_fields_empty[of d t0]
  by (auto simp: update_transaction_def Let_def split: if_splits)




section \<open>Every request keeps the balance reconciled\<close>





section \<open>Grouping, percentages and the stable sort\<close>

lemma add_to_totals_amounts:
  "sum_list (map (\<lambda>(cat_id, amount, count). amount) (add_to_totals k x tot))
     = sum_list (map (\<lambda>(cat_id, amount, count). amount) tot) + x"
  by (induction k x tot rule: add_to_totals.induct) auto

lemma add_to_totals_keys:
  "fst ` set (add_to_totals k x tot) = insert k (fst ` set tot)"
  by (induction k x tot rule: add_to_totals.induct) auto

lemma foldl_totals_amounts:
  "sum_list (map (\<lambda>(cat_id, amount, count). amount)
     (foldl (\<lambda>tot t. add_to_totals (t_category_id t) (t_amount t) tot) acc ts))
   = sum_list (map (\<lambda>(cat_id, amount, count). amount) acc) + sum_list (map t_amount ts)"
  by (induction ts arbitrary: acc) (simp_all add: add_to_totals_amounts)

lemma foldl_totals_keys:
  "fst ` set (foldl (\<lambda>tot t. add_to_totals (t_category_id t) (t_amount t) tot) acc ts)
   = fst ` set acc \<union> t_category_id ` set ts"
  by (induction ts arbitrary: acc) (simp_all add: add_to_totals_keys)

lemma group_by_category_amounts:
  "sum_list (map (\<lambda>(cat_id, amount, count). amount) (group_by_category ts))
     = sum_list (map t_amount ts)"
  by (simp add: group_by_category_def foldl_totals_amounts)

lemma group_by_category_keys:
  "fst ` set (group_by_category ts) = t_category_id ` set ts"
  by (simp add: group_by_category_def foldl_totals_keys)




lemma expense_entries_sel:
  "map ce_category_id (expense_entries cm tot) = map fst tot"
  "map ce_total_amount (expense_entries cm tot) = map (\<lambda>(cat_id, amount, count). amount) tot"
  by (simp_all add: expense_entries_def Let_def case_prod_beta comp_def)



lemma expense_entries_name:
  "e \<in> set (expense_entries cm tot) \<Longrightarrow>
   ce_category_name e = category_name_of cm (ce_category_id e)"
  by (auto simp: expense_entries_def Let_def)



lemma set_sort_reverse [simp]: "set (sort_reverse key xs) = set xs"
  by (simp add: sort_reverse_def)

lemma category_map_of_rev:
  "category_map_of cs k = map_option c_name (find_one (\<lambda>c. c_id c = k) (rev cs))"
  by (induction cs rule: rev_induct) (simp_all add: category_map_of_def)







lemma get_expenses_by_category_eq:
  assumes "date_range (or_else year (dt_year now)) (or_else month (dt_month now))
             = Some (start_date, end_date)"
  shows "get_expenses_by_category db uid month year now =
         Inr \<lparr>ebc_expenses =
                sort_reverse ce_total_amount
                  (expense_entries
                     (category_map_of (to_list 1000 (filter (\<lambda>c. c_user_id c = uid) (categories db))))
                     (group_by_category (expense_transactions db uid start_date end_date))),
              ebc_total_expense =
                sum_list (map t_amount (expense_transactions db uid start_date end_date))\<rparr>"
  using assms by (simp add: get_expenses_by_category_def Let_def group_by_category_amounts)

section \<open>The order of ISO-8601 texts\<close>

lemma digit_char_less: "digit_char a < digit_char b \<longleftrightarrow> a mod 10 < b mod 10"
proof -
  have "(48 + a mod 10) mod 256 = 48 + a mod 10" "(48 + b mod 10) mod 256 = 48 + b mod 10"
    by (simp_all add: mod_less)
  then show ?thesis by (simp add: digit_char_def less_char_def)
qed

lemma digit_char_eq: "digit_char a = digit_char b \<longleftrightarrow> a mod 10 = b mod 10"
proof -
  have "(48 + a mod 10) mod 256 = 48 + a mod 10" "(48 + b mod 10) mod 256 = 48 + b mod 10"
    by (simp_all add: mod_less)
  then show ?thesis by (simp add: digit_char_def)
qed

lemma digit_char_0: "digit_char 0 = CHR ''0''"
  by (simp add: digit_char_def char_of_eq_iff)

lemma append_less_append:
  "length a = length b \<Longrightarrow> (a @ x < b @ y \<longleftrightarrow> a < b \<or> a = b \<and> x < (y :: 'a :: linorder list))"
  by (induction a b rule: list_induct2) auto

lemma length_fixed [simp]: "length (fixed w n) = w"
  by (induction w arbitrary: n) simp_all

lemma fixed_0: "fixed w 0 = replicate w (CHR ''0'')"
  by (induction w) (simp_all add: digit_char_0 replicate_append_same)

lemma split_digits_eq:
  "(a :: nat) = b \<longleftrightarrow> a div 10 = b div 10 \<and> a mod 10 = b mod 10"
  by (metis div_mult_mod_eq)

lemma digits_less_linear:
  fixes q r q' r' :: nat
  assumes "r < 10" "r' < 10"
  shows "10 * q + r < 10 * q' + r' \<longleftrightarrow> q < q' \<or> q = q' \<and> r < r'"
  using assms by linarith

lemma split_digits:
  "(a :: nat) < b \<longleftrightarrow> a div 10 < b div 10 \<or> a div 10 = b div 10 \<and> a mod 10 < b mod 10"
proof -
  have "a = 10 * (a div 10) + a mod 10" "b = 10 * (b div 10) + b mod 10" by simp_all
  then have "a < b \<longleftrightarrow> 10 * (a div 10) + a mod 10 < 10 * (b div 10) + b mod 10" by simp
  also have "\<dots> \<longleftrightarrow> a div 10 < b div 10 \<or> a div 10 = b div 10 \<and> a mod 10 < b mod 10"
    by (rule digits_less_linear) simp_all
  finally show ?thesis .
qed

lemma fixed_eq: "a < 10 ^ w \<Longrightarrow> b < 10 ^ w \<Longrightarrow> fixed w a = fixed w b \<longleftrightarrow> a = b"
proof (induction w arbitrary: a b)
  case 0
  then show ?case by simp
next
  case (Suc w)
  from Suc.prems have "a div 10 < 10 ^ w" "b div 10 < 10 ^ w"
    by (simp_all add: less_mult_imp_div_less mult.commute)
  from Suc.IH[OF this] show ?case
    using split_digits_eq[of a b] by (simp add: digit_char_eq)
qed

lemma fixed_less: "a < 10 ^ w \<Longrightarrow> b < 10 ^ w \<Longrightarrow> fixed w a < fixed w b \<longleftrightarrow> a < b"
proof (induction w arbitrary: a b)
  case 0
  then show ?case by simp
next
  case (Suc w)
  from Suc.prems have d: "a div 10 < 10 ^ w" "b div 10 < 10 ^ w"
    by (simp_all add: less_mult_imp_div_less mult.commute)
  show ?case
    using Suc.IH[OF d] fixed_eq[OF d] split_digits[of a b]
    by (simp add: append_less_append digit_char_less)
qed

lemma zero_pad_step:
  assumes "10 \<le> n" "length (decimal (n div 10)) \<le> w"
  shows "zero_pad (Suc w) n = zero_pad w (n div 10) @ [digit_char n]"
proof -
  have "decimal n = decimal (n div 10) @ [digit_char n]"
    using assms(1) by (subst decimal.simps) simp
  then show ?thesis using assms(2) by (simp add: zero_pad_def Suc_diff_le)
qed

lemma length_decimal: "n < 10 ^ w \<Longrightarrow> 0 < w \<Longrightarrow> length (decimal n) \<le> w"
proof (induction w arbitrary: n)
  case 0
  then show ?case by simp
next
  case (Suc w)
  show ?case
  proof (cases "n < 10")
    case True
    then show ?thesis by (subst decimal.simps) simp
  next
    case False
    with Suc.prems have "n div 10 < 10 ^ w" "0 < w"
      by (auto simp: less_mult_imp_div_less mult.commute intro: Nat.gr0I)
    from Suc.IH[OF this] False show ?thesis by (subst decimal.simps) simp
  qed
qed

lemma zero_pad_fixed: "n < 10 ^ w \<Longrightarrow> 0 < w \<Longrightarrow> zero_pad w n = fixed w n"
proof (induction w arbitrary: n)
  case 0
  then show ?case by simp
next
  case (Suc w)
  show ?case
  proof (cases "n < 10")
    case True
    then have "decimal n = [digit_char n]" by (subst decimal.simps) simp
    with True show ?thesis by (simp add: zero_pad_def fixed_0)
  next
    case False
    with Suc.prems have d: "n div 10 < 10 ^ w" "0 < w"
      by (auto simp: less_mult_imp_div_less mult.commute intro: Nat.gr0I)
    from zero_pad_step[OF _ length_decimal[OF d]] False Suc.IH[OF d]
    show ?thesis by simp
  qed
qed

lemma month_cases:
  "1 \<le> m \<Longrightarrow> m \<le> 12 \<Longrightarrow>
   m = 1 \<or> m = 2 \<or> m = 3 \<or> m = 4 \<or> m = 5 \<or> m = 6 \<or> m = 7 \<or> m = 8 \<or> m = 9 \<or> m = 10 \<or>
   m = 11 \<or> m = (12 :: nat)"
  by arith

lemma days_in_month_bounds:
  assumes "1 \<le> m" "m \<le> 12"
  shows "28 \<le> days_in_month y m \<and> days_in_month y m \<le> 31"
  using month_cases[OF assms] by (auto simp: days_in_month_def)

lemma month_start_valid:
  "1 \<le> y \<Longrightarrow> y \<le> 9999 \<Longrightarrow> 1 \<le> m \<Longrightarrow> m \<le> 12 \<Longrightarrow> datetime_valid (month_start y m)"
  using days_in_month_bounds[of m y] by (simp add: datetime_valid_def month_start_def)

lemma format_offset_utc: "format_offset (Some 0) = ''+00:00''"
  by (simp add: format_offset_def zero_pad_fixed numeral_2_eq_2 digit_char_0)

lemma isoformat_utc:
  assumes "datetime_valid d" "dt_tzinfo d = Some 0"
  shows "isoformat d =
     fixed 4 (dt_year d) @ ''-'' @ fixed 2 (dt_month d) @ ''-'' @ fixed 2 (dt_day d) @
     ''T'' @ fixed 2 (dt_hour d) @ '':'' @ fixed 2 (dt_minute d) @ '':'' @
     fixed 2 (dt_second d) @
     (if dt_microsecond d \<noteq> 0 then ''.'' @ zero_pad 6 (dt_microsecond d) else []) @ ''+00:00''"
proof -
  from assms(1) have "dt_day d \<le> 31"
    using days_in_month_bounds[of "dt_month d" "dt_year d"] by (simp add: datetime_valid_def)
  with assms(1) have "dt_year d < 10 ^ 4" "dt_month d < 10 ^ 2" "dt_day d < 10 ^ 2"
    "dt_hour d < 10 ^ 2" "dt_minute d < 10 ^ 2" "dt_second d < 10 ^ 2"
    by (simp_all add: datetime_valid_def)
  then show ?thesis
    unfolding isoformat_def assms(2) format_offset_utc
    by (simp only: zero_pad_fixed zero_less_numeral)
qed

lemma isoformat_month_start:
  assumes "1 \<le> y" "y \<le> 9999" "1 \<le> m" "m \<le> 12"
  shows "isoformat (month_start y m) =
     fixed 4 y @ ''-'' @ fixed 2 m @ ''-'' @ fixed 2 1 @
     ''T'' @ fixed 2 0 @ '':'' @ fixed 2 0 @ '':'' @ fixed 2 0 @ ''+00:00''"
  using isoformat_utc[OF month_start_valid[OF assms]] by (simp add: month_start_def)

lemma tail_not_less: "\<not> (if us \<noteq> (0::nat) then ''.'' @ z else []) @ ''+00:00'' < ''+00:00''"
  by simp

lemma isoformat_less_month_start:
  assumes "datetime_valid d" "dt_tzinfo d = Some 0"
    and "1 \<le> y" "y \<le> 9999" "1 \<le> m" "m \<le> 12"
  shows "isoformat d < isoformat (month_start y m) \<longleftrightarrow>
           dt_year d < y \<or> dt_year d = y \<and> dt_month d < m"
proof -
  from assms(1) have "dt_day d \<le> 31"
    using days_in_month_bounds[of "dt_month d" "dt_year d"] by (simp add: datetime_valid_def)
  with assms have b: "dt_year d < 10 ^ 4" "dt_month d < 10 ^ 2" "dt_day d < 10 ^ 2"
    "dt_hour d < 10 ^ 2" "dt_minute d < 10 ^ 2" "dt_second d < 10 ^ 2"
    "y < 10 ^ 4" "m < 10 ^ 2" "(1::nat) < 10 ^ 2" "(0::nat) < 10 ^ 2" "1 \<le> dt_day d"
    by (simp_all add: datetime_valid_def)
  show ?thesis
    unfolding isoformat_utc[OF assms(1,2)] isoformat_month_start[OF assms(3-6)]
    using b tail_not_less[of "dt_microsecond d" "zero_pad 6 (dt_microsecond d)"]
    by (auto simp add: append_less_append fixed_less fixed_eq simp del: fixed.simps)
qed

section \<open>The order of instants\<close>

lemma days_before_month_step:
  assumes "1 \<le> m" "m < 12"
  shows "days_before_month y (m + 1) = days_before_month y m + int (days_in_month y m)"
proof -
  from assms have "1 \<le> m" "m \<le> 12" by simp_all
  from month_cases[OF this] assms(2) show ?thesis
    by (auto simp: days_before_month_def days_in_month_def)
qed

lemma days_before_month_december:
  "days_before_month y 12 + 31 = 365 + (if is_leap y then 1 else 0)"
  by (simp add: days_before_month_def)

lemma days_before_month_nonneg: "0 \<le> days_before_month y m"
  by (simp add: days_before_month_def)

lemma days_before_month_mono:
  assumes "m \<le> m'" "1 \<le> m" "m' \<le> 12"
  shows "days_before_month y m \<le> days_before_month y m'"
  using assms(1)
proof (induction m' rule: dec_induct)
  case base
  show ?case by simp
next
  case (step n)
  with assms have "1 \<le> n" "n < 12" by simp_all
  from days_before_month_step[OF this, of y] step.IH show ?case by simp
qed

text \<open>The days of a year from a day of month \<open>m\<close> on do not reach into the next year.\<close>

lemma day_of_year_bound:
  assumes "1 \<le> m" "m \<le> 12" "dd \<le> days_in_month y m"
  shows "days_before_month y m + int dd \<le> 365 + (if is_leap y then 1 else 0)"
proof (cases "m = 12")
  case True
  with assms(3) have "dd \<le> 31" by (simp add: days_in_month_def)
  with True days_before_month_december[of y] show ?thesis by simp
next
  case False
  with assms have m: "1 \<le> m" "m < 12" by simp_all
  have "days_before_month y m + int dd \<le> days_before_month y (m + 1)"
    using days_before_month_step[OF m, of y] assms(3) by simp
  also have "\<dots> \<le> days_before_month y 12"
    using m by (intro days_before_month_mono) simp_all
  also have "\<dots> \<le> 365 + (if is_leap y then 1 else 0)"
    using days_before_month_december[of y] by simp
  finally show ?thesis .
qed

lemma leap_divisors:
  "n mod 400 = 0 \<Longrightarrow> n mod 100 = (0::nat)" "n mod 100 = 0 \<Longrightarrow> n mod 4 = (0::nat)"
  by (auto simp: mod_eq_0_iff_dvd elim: dvd_trans[rotated])

lemma days_before_year_nat:
  "days_before_year (Suc n) = int (n * 365 + n div 4 + n div 400) - int (n div 100)"
  by (simp add: days_before_year_def Let_def zdiv_int)

lemma days_before_year_step:
  assumes "1 \<le> y"
  shows "days_before_year (y + 1) = days_before_year y + 365 + (if is_leap y then 1 else 0)"
proof -
  from assms obtain n where y: "y = Suc n" by (cases y) simp_all
  show ?thesis
    unfolding y Suc_eq_plus1[symmetric] days_before_year_nat
    using leap_divisors[of "Suc n"]
    by (auto simp: div_Suc is_leap_def)
qed

lemma days_before_year_mono:
  assumes "y \<le> y'" "1 \<le> y"
  shows "days_before_year y \<le> days_before_year y'"
  using assms(1)
proof (induction y' rule: dec_induct)
  case base
  show ?case by simp
next
  case (step n)
  with assms(2) have "1 \<le> n" by simp
  from days_before_year_step[OF this] step.IH show ?case by simp
qed

text \<open>
  A valid date in a month before \<open>(y', m')\<close> has a smaller ordinal than the first day
  of \<open>(y', m')\<close>.
\<close>

lemma toordinal_before_month:
  assumes "datetime_valid d" "1 \<le> m'" "m' \<le> 12"
    and "dt_year d < y' \<or> dt_year d = y' \<and> dt_month d < m'"
  shows "toordinal d < days_before_year y' + days_before_month y' m' + 1"
proof -
  let ?y = "dt_year d" and ?m = "dt_month d" and ?dd = "dt_day d"
  from assms(1) have v: "1 \<le> ?y" "1 \<le> ?m" "?m \<le> 12" "?dd \<le> days_in_month ?y ?m"
    by (simp_all add: datetime_valid_def)
  from assms(4) show ?thesis
  proof
    assume lt: "?y < y'"
    have "toordinal d \<le> days_before_year ?y + 365 + (if is_leap ?y then 1 else 0)"
      using day_of_year_bound[OF v(2,3,4)] by (simp add: toordinal_def)
    also have "\<dots> = days_before_year (?y + 1)"
      using days_before_year_step[OF v(1)] by simp
    also have "\<dots> \<le> days_before_year y'"
      using lt by (intro days_before_year_mono) simp_all
    finally show ?thesis using days_before_month_nonneg[of y' m'] by simp
  next
    assume eq: "?y = y' \<and> ?m < m'"
    then have m: "1 \<le> ?m" "?m < 12" using v assms(3) by simp_all
    have "days_before_month ?y ?m + int ?dd \<le> days_before_month ?y (?m + 1)"
      using days_before_month_step[OF m, of ?y] v(4) by simp
    also have "\<dots> \<le> days_before_month ?y m'"
      using eq assms(3) by (intro days_before_month_mono) simp_all
    finally show ?thesis using eq by (simp add: toordinal_def)
  qed
qed

lemma toordinal_month_start:
  "toordinal (month_start y m) = days_before_year y + days_before_month y m + 1"
  by (simp add: toordinal_def month_start_def)

lemma toordinal_less_month_start:
  assumes "datetime_valid d" "1 \<le> y" "y \<le> 9999" "1 \<le> m" "m \<le> 12"
  shows "toordinal d < toordinal (month_start y m) \<longleftrightarrow>
           dt_year d < y \<or> dt_year d = y \<and> dt_month d < m"
proof
  assume "dt_year d < y \<or> dt_year d = y \<and> dt_month d < m"
  from toordinal_before_month[OF assms(1,4,5) this]
  show "toordinal d < toordinal (month_start y m)" by (simp add: toordinal_month_start)
next
  assume lt: "toordinal d < toordinal (month_start y m)"
  show "dt_year d < y \<or> dt_year d = y \<and> dt_month d < m"
  proof (rule ccontr)
    assume n: "\<not> ?thesis"
    from assms(1) have v: "1 \<le> dt_month d" "dt_month d \<le> 12" "1 \<le> dt_day d"
      by (simp_all add: datetime_valid_def)
    show False
    proof (cases "dt_year d = y \<and> dt_month d = m")
      case True
      with v(3) lt show False by (simp add: toordinal_def month_start_def)
    next
      case False
      with n have "y < dt_year d \<or> y = dt_year d \<and> m < dt_month d" by auto
      then have "dt_year (month_start y m) < dt_year d \<or>
                 dt_year (month_start y m) = dt_year d \<and> dt_month (month_start y m) < dt_month d"
        by (simp add: month_start_def)
      from toordinal_before_month[OF month_start_valid[OF assms(2-5)] v(1,2) this]
      have "toordinal (month_start y m) < toordinal d + 1 - int (dt_day d) + 1"
        by (simp add: toordinal_def)
      with v(3) lt show False by simp
    qed
  qed
qed

lemma instant_utc:
  assumes "dt_tzinfo d = Some 0"
  shows "instant d = Some (toordinal d * 86400000000 +
           (((int (dt_hour d) * 60 + int (dt_minute d)) * 60 + int (dt_second d)) * 1000000
              + int (dt_microsecond d)))"
  using assms by (simp add: instant_def algebra_simps)

lemma instant_month_start:
  "instant (month_start y m) = Some (toordinal (month_start y m) * 86400000000)"
  by (simp add: instant_utc month_start_def)

lemma instant_less_month_start:
  assumes "datetime_valid d" "dt_tzinfo d = Some 0" "1 \<le> y" "y \<le> 9999" "1 \<le> m" "m \<le> 12"
  shows "the (instant d) < the (instant (month_start y m)) \<longleftrightarrow>
           dt_year d < y \<or> dt_year d = y \<and> dt_month d < m"
proof -
  let ?tod = "((int (dt_hour d) * 60 + int (dt_minute d)) * 60 + int (dt_second d)) * 1000000
                + int (dt_microsecond d)"
  from assms(1) have "dt_hour d \<le> 23" "dt_minute d \<le> 59" "dt_second d \<le> 59"
    "dt_microsecond d \<le> 999999"
    by (simp_all add: datetime_valid_def)
  then have "int (dt_hour d) \<le> 23" "int (dt_minute d) \<le> 59" "int (dt_second d) \<le> 59"
    "int (dt_microsecond d) \<le> 999999"
    by simp_all
  then have "?tod < 86400000000" by (simp add: algebra_simps)
  moreover have "0 \<le> ?tod" by simp
  ultimately have tod: "0 \<le> ?tod" "?tod < 86400000000" by simp_all
  have "the (instant d) < the (instant (month_start y m)) \<longleftrightarrow>
          toordinal d * 86400000000 + ?tod < toordinal (month_start y m) * 86400000000"
    by (simp add: instant_utc[OF assms(2)] instant_month_start)
  also have "\<dots> \<longleftrightarrow> toordinal d < toordinal (month_start y m)"
    using tod by linarith
  finally show ?thesis
    using toordinal_less_month_start[OF assms(1,3-6)] by simp
qed

section \<open>The stored window and the month of the specification\<close>

lemma date_range_eq:
  assumes "1 \<le> y" "y \<le> 9998" "1 \<le> m" "m \<le> 12"
  shows "date_range y m = Some (month_start y m, next_month_start y m)"
proof -
  have f: "first_of_month y' m' = Some (month_start y' m')"
    if "1 \<le> y'" "y' \<le> 9999" "1 \<le> m'" "m' \<le> 12" for y' m'
    using month_start_valid[OF that] by (simp add: first_of_month_def month_start_def)
  from assms have "first_of_month y m = Some (month_start y m)"
    "first_of_month (y + 1) 1 = Some (month_start (y + 1) 1)"
    "m \<noteq> 12 \<Longrightarrow> first_of_month y (m + 1) = Some (month_start y (m + 1))"
    by (simp_all add: f)
  then show ?thesis by (simp add: date_range_def next_month_start_def)
qed

lemma before_next_month:
  assumes "1 \<le> m" "m \<le> 12" "1 \<le> y" "y \<le> 9998" "datetime_valid d" "dt_tzinfo d = Some 0"
  shows "isoformat d < isoformat (next_month_start y m) \<longleftrightarrow>
           dt_year d < y \<or> dt_year d = y \<and> dt_month d \<le> m"
    and "the (instant d) < the (instant (next_month_start y m)) \<longleftrightarrow>
           dt_year d < y \<or> dt_year d = y \<and> dt_month d \<le> m"
proof -
  from assms(5) have v: "1 \<le> dt_month d" "dt_month d \<le> 12" by (simp_all add: datetime_valid_def)
  show "isoformat d < isoformat (next_month_start y m) \<longleftrightarrow>
           dt_year d < y \<or> dt_year d = y \<and> dt_month d \<le> m"
  proof (cases "m = 12")
    case True
    from assms have "1 \<le> y + 1" "y + 1 \<le> 9999" "1 \<le> (1::nat)" "(1::nat) \<le> 12" by simp_all
    from isoformat_less_month_start[OF assms(5,6) this] True v show ?thesis
      by (auto simp: next_month_start_def)
  next
    case False
    with assms have "1 \<le> y" "y \<le> 9999" "1 \<le> m + 1" "m + 1 \<le> 12" by simp_all
    from isoformat_less_month_start[OF assms(5,6) this] False show ?thesis
      by (auto simp: next_month_start_def)
  qed
  show "the (instant d) < the (instant (next_month_start y m)) \<longleftrightarrow>
           dt_year d < y \<or> dt_year d = y \<and> dt_month d \<le> m"
  proof (cases "m = 12")
    case True
    from assms have "1 \<le> y + 1" "y + 1 \<le> 9999" "1 \<le> (1::nat)" "(1::nat) \<le> 12" by simp_all
    from instant_less_month_start[OF assms(5,6) this] True v show ?thesis
      by (auto simp: next_month_start_def)
  next
    case False
    with assms have "1 \<le> y" "y \<le> 9999" "1 \<le> m + 1" "m + 1 \<le> 12" by simp_all
    from instant_less_month_start[OF assms(5,6) this] False show ?thesis
      by (auto simp: next_month_start_def)
  qed
qed

lemma instant_next_month_start:
  "instant (next_month_start y m) = Some (the (instant (next_month_start y m)))"
  by (simp add: next_month_start_def instant_month_start)

lemma in_month_iff:
  assumes "1 \<le> m" "m \<le> 12" "1 \<le> y" "y \<le> 9998" "datetime_valid d" "dt_tzinfo d = Some 0"
  shows "in_month y m d \<longleftrightarrow> dt_year d = y \<and> dt_month d = m"
proof -
  from assms have y: "1 \<le> y" "y \<le> 9999" by simp_all
  have "in_month y m d \<longleftrightarrow>
          \<not> the (instant d) < the (instant (month_start y m)) \<and>
          the (instant d) < the (instant (next_month_start y m))"
    unfolding in_month_def in_interval_def
    by (subst instant_next_month_start)
       (auto simp: instant_month_start instant_utc[OF assms(6)])
  then show ?thesis
    unfolding instant_less_month_start[OF assms(5,6) y assms(1,2)] before_next_month(2)[OF assms]
    by auto
qed

lemma in_date_range_iff:
  assumes "1 \<le> m" "m \<le> 12" "1 \<le> y" "y \<le> 9998" "datetime_valid d" "dt_tzinfo d = Some 0"
    and "t_transaction_date t = isoformat d"
  shows "in_date_range (month_start y m) (next_month_start y m) t \<longleftrightarrow>
           dt_year d = y \<and> dt_month d = m"
proof -
  from assms have y: "1 \<le> y" "y \<le> 9999" by simp_all
  have "in_date_range (month_start y m) (next_month_start y m) t \<longleftrightarrow>
          \<not> isoformat d < isoformat (month_start y m) \<and>
          isoformat d < isoformat (next_month_start y m)"
    by (auto simp: in_date_range_def assms(7))
  then show ?thesis
    unfolding isoformat_less_month_start[OF assms(5,6) y assms(1,2)] before_next_month(1)[OF assms(1-6)]
    by auto
qed

lemma target_in_range:
  assumes "Query_valid month year" "datetime_valid now" "dt_year now \<le> 9998"
  shows "1 \<le> or_else month (dt_month now) \<and> or_else month (dt_month now) \<le> 12 \<and>
         1 \<le> or_else year (dt_year now) \<and> or_else year (dt_year now) \<le> 9998"
  using assms
  by (auto simp: Query_valid_def datetime_valid_def or_else_def split: option.splits)

lemma summary_selection:
  assumes "1 \<le> m" "m \<le> 12" "1 \<le> y" "y \<le> 9998"
    and "\<forall>t \<in> set ts. t_user_id t = uid \<and> t_is_active t \<longrightarrow>
           datetime_valid (t_transaction_date t) \<and> dt_tzinfo (t_transaction_date t) = Some 0"
  shows "filter (\<lambda>t. t_user_id t = uid \<and> t_is_active t \<and>
                     in_date_range (month_start y m) (next_month_start y m) t)
           (map model_dump ts)
         = map model_dump (selected_in_month ts uid y m)"
proof -
  have "(t_user_id (model_dump t) = uid \<and> t_is_active (model_dump t) \<and>
          in_date_range (month_start y m) (next_month_start y m) (model_dump t))
        = (t_user_id t = uid \<and> t_is_active t \<and> in_month y m (t_transaction_date t))"
    if "t \<in> set ts" for t
  proof (cases "t_user_id t = uid \<and> t_is_active t")
    case True
    with assms(5) that have v: "datetime_valid (t_transaction_date t)"
      "dt_tzinfo (t_transaction_date t) = Some 0" by auto
    have "t_transaction_date (model_dump t) = isoformat (t_transaction_date t)"
      by (simp add: model_dump_def)
    from in_date_range_iff[OF assms(1-4) v this] in_month_iff[OF assms(1-4) v] True
    show ?thesis by simp
  next
    case False
    then show ?thesis by auto
  qed
  then show ?thesis
    unfolding selected_in_month_def filter_map comp_def
    by (auto intro!: arg_cong[of _ _ "map model_dump"] filter_cong)
qed

section \<open>The claims about the transaction routes\<close>

lemmas example_defs =
  utc_def noon_15_jan_def test_user_def test_category_def empty_db_def income_request_def
  expense_request_def income_doc_def income_db_def no_update_def expense_doc_def
  transfer_request_def blank_category_request_def amount_update_def type_update_def
  category_update_def test_sequence_def

lemmas handler_defs =
  create_transaction_def update_transaction_def delete_transaction_def Let_def truthy_def
  Transaction_valid_def insert_one_def inc_total_balance_def model_dump_def set_fields_def
  update_data_nonempty_def total_balance_def active_effects_def









text \<open>
  C8. When no stored transaction has the requested identifier, the requesting user and
  \<open>is_active = true\<close> together (the identifier does not exist, or is another
  user's, or is already soft-deleted), update and soft-delete both fail with
  \<open>TransactionNotFound\<close> and return the store exactly as it was: no record and no
  balance has changed.
\<close>

theorem lookup_failure_changes_nothing:
  assumes "\<forall>t \<in> set (transactions db).
             t_id t = tid \<longrightarrow> t_user_id t \<noteq> uid \<or> \<not> t_is_active t"
  shows "update_transaction db uid tid d = (db, Inl TransactionNotFound) \<and>
         delete_transaction db uid tid = (db, Inl TransactionNotFound)"
proof -
  have "find_one (\<lambda>t. t_id t = tid \<and> t_user_id t = uid \<and> t_is_active t) (transactions db) = None"
    using assms by (auto simp: find_one_None_iff)
  then show ?thesis
    by (simp add: update_transaction_def delete_transaction_def)
qed

text \<open>
  Another user's transaction, an identifier that does not exist, and a transaction that
  was soft-deleted before.
\<close>

theorem lookup_failure_changes_nothing_witness:
  "update_transaction income_db ''u2'' ''t1'' amount_update = (income_db, Inl TransactionNotFound) \<and>
   delete_transaction income_db ''u2'' ''t1'' = (income_db, Inl TransactionNotFound) \<and>
   update_transaction income_db ''u1'' ''t9'' amount_update = (income_db, Inl TransactionNotFound) \<and>
   delete_transaction income_db ''u1'' ''t9'' = (income_db, Inl TransactionNotFound) \<and>
   snd (delete_transaction income_db ''u1'' ''t1'') = Inr () \<and>
   delete_transaction (fst (delete_transaction income_db ''u1'' ''t1'')) ''u1'' ''t1''
     = (fst (delete_transaction income_db ''u1'' ''t1''), Inl TransactionNotFound) \<and>
   update_transaction (fst (delete_transaction income_db ''u1'' ''t1'')) ''u1'' ''t1'' amount_update
     = (fst (delete_transaction income_db ''u1'' ''t1''), Inl TransactionNotFound)"
proof -
  have h1: "\<forall>t \<in> set (transactions income_db).
              t_id t = ''t1'' \<longrightarrow> t_user_id t \<noteq> ''u2'' \<or> \<not> t_is_active t"
    by (simp add: example_defs)
  have h2: "\<forall>t \<in> set (transactions income_db).
              t_id t = ''t9'' \<longrightarrow> t_user_id t \<noteq> ''u1'' \<or> \<not> t_is_active t"
    by (simp add: example_defs)
  have h3: "\<forall>t \<in> set (transactions (fst (delete_transaction income_db ''u1'' ''t1''))).
              t_id t = ''t1'' \<longrightarrow> t_user_id t \<noteq> ''u1'' \<or> \<not> t_is_active t"
    by (simp add: example_defs handler_defs)
  have s: "snd (delete_transaction income_db ''u1'' ''t1'') = Inr ()"
    by (simp add: example_defs handler_defs)
  from lookup_failure_changes_nothing[OF h1, of amount_update]
       lookup_failure_changes_nothing[OF h2, of amount_update]
       lookup_failure_changes_nothing[OF h3, of amount_update] s
  show ?thesis by simp
qed

text \<open>
  What the handler does with an empty \<open>category_id\<close>: the test
  \<open>if transaction_data.category_id:\<close> takes it as no category supplied, nothing
  is looked up, and the transaction is stored with \<open>category_id = ""\<close>.
\<close>

lemma create_blank_category_is_not_looked_up:
  "TransactionCreate_valid blank_category_request \<and>
   tc_category_id blank_category_request = Some [] \<and>
   \<not> isl (snd (create_transaction empty_db ''u1'' ''t1'' noon_15_jan blank_category_request)) \<and>
   map t_category_id
     (transactions (fst (create_transaction empty_db ''u1'' ''t1'' noon_15_jan blank_category_request)))
     = [Some []]"
  by (simp add: example_defs handler_defs TransactionCreate_valid_def)

text \<open>
  C9. A create request that supplies a \<open>category_id\<close> (a non-empty string: the
  handler, like the specification, takes an empty one as not supplied) which is not the
  identifier of an active category of the requesting user fails with
  \<open>CategoryNotFound\<close> and returns the store as it was: no transaction is persisted
  and no balance is adjusted.
\<close>

theorem create_rejects_unknown_category:
  assumes "tc_category_id d = Some cid" and "cid \<noteq> []"
    and "\<forall>c \<in> set (categories db). c_id c = cid \<longrightarrow> c_user_id c \<noteq> uid \<or> \<not> c_is_active c"
  shows "create_transaction db uid new_id now d = (db, Inl CategoryNotFound)"
proof -
  have "find_one (\<lambda>c. Some (c_id c) = tc_category_id d \<and> c_user_id c = uid \<and> c_is_active c)
          (categories db) = None"
    using assms by (auto simp: find_one_None_iff)
  then show ?thesis using assms(1,2)
    by (simp add: create_transaction_def truthy_def)
qed

text \<open>The category of the first user, named by a second user.\<close>

theorem create_rejects_unknown_category_witness:
  "tc_category_id expense_request = Some ''c1'' \<and> ''c1'' \<noteq> [] \<and>
   create_transaction empty_db ''u2'' ''t1'' noon_15_jan expense_request
     = (empty_db, Inl CategoryNotFound)"
proof -
  have h1: "tc_category_id expense_request = Some ''c1''" by (simp add: example_defs)
  have h2: "''c1'' \<noteq> []" by simp
  have h3: "\<forall>c \<in> set (categories empty_db).
              c_id c = ''c1'' \<longrightarrow> c_user_id c \<noteq> ''u2'' \<or> \<not> c_is_active c"
    by (simp add: example_defs)
  from create_rejects_unknown_category[OF h1 h2 h3] h1 show ?thesis by simp
qed

text \<open>
  C10. An update of an existing active transaction that supplies a \<open>category_id\<close>
  never looks the category up: whatever the categories collection holds, the update
  succeeds (the request and the stored transaction satisfying the field constraints),
  returns the transaction with that \<open>category_id\<close>, and the document that
  \<open>update_one\<close> addresses by the identifier now stores it.
\<close>

theorem update_accepts_any_category:
  assumes "find_one (\<lambda>t. t_id t = tid \<and> t_user_id t = uid \<and> t_is_active t)
             (transactions db) = Some t0"
    and "tu_category_id d = Some cid"
    and "TransactionUpdate_valid d" and "Transaction_valid t0"
  shows "snd (update_transaction db uid tid d) = Inr (set_fields d t0) \<and>
         t_category_id (set_fields d t0) = Some cid \<and>
         map_option t_category_id
           (find_one (\<lambda>t. t_id t = tid) (transactions (fst (update_transaction db uid tid d))))
           = Some (Some cid)"
proof -
  have ne: "update_data_nonempty d" using assms(2) by (simp add: update_data_nonempty_def)
  have v: "Transaction_valid (set_fields d t0)"
    using assms(3,4)
    by (auto simp: Transaction_valid_def TransactionUpdate_valid_def set_fields_def
             split: option.splits)
  have ex: "find_one (\<lambda>t. t_id t = tid) (transactions db) \<noteq> None"
    using find_one_Some_D[OF assms(1)] by (auto simp: find_one_None_iff)
  have st: "find_one (\<lambda>t. t_id t = tid)
              (update_one (\<lambda>t. t_id t = tid) (set_fields d) (transactions db))
            = map_option (set_fields d) (find_one (\<lambda>t. t_id t = tid) (transactions db))"
    by (rule find_one_update_one_same) simp
  have "transactions (fst (update_transaction db uid tid d))
          = update_one (\<lambda>t. t_id t = tid) (set_fields d) (transactions db)"
    unfolding update_found_fst[OF assms(1)] using ne by (simp add: Let_def)
  with st ex assms(2) v show ?thesis
    unfolding update_found_snd[OF assms(1)] by (auto simp: set_fields_sel)
qed

theorem update_accepts_any_category_witness:
  "find_one (\<lambda>c. c_id c = ''not-a-category'') (categories income_db) = None \<and>
   tu_category_id category_update = Some ''not-a-category'' \<and>
   TransactionUpdate_valid category_update \<and> Transaction_valid income_doc \<and>
   \<not> isl (snd (update_transaction income_db ''u1'' ''t1'' category_update)) \<and>
   map t_category_id
     (transactions (fst (update_transaction income_db ''u1'' ''t1'' category_update)))
     = [Some ''not-a-category'']"
proof -
  have f: "find_one (\<lambda>t. t_id t = ''t1'' \<and> t_user_id t = ''u1'' \<and> t_is_active t)
             (transactions income_db) = Some income_doc"
    by (simp add: example_defs)
  have c: "tu_category_id category_update = Some ''not-a-category''"
    by (simp add: example_defs)
  have v1: "TransactionUpdate_valid category_update"
    by (simp add: example_defs TransactionUpdate_valid_def)
  have v2: "Transaction_valid income_doc"
    by (simp add: example_defs Transaction_valid_def)
  have n: "find_one (\<lambda>c. c_id c = ''not-a-category'') (categories income_db) = None"
    by (simp add: example_defs)
  have m: "map t_category_id
             (transactions (fst (update_transaction income_db ''u1'' ''t1'' category_update)))
           = [Some ''not-a-category'']"
    by (simp add: example_defs handler_defs)
  from update_accepts_any_category[OF f c v1 v2] c v1 v2 n m
  show ?thesis by simp
qed

section \<open>The claims about the report routes\<close>

lemmas document_defs =
  test_user_def test_category_def income_doc_def expense_doc_def food_category_def
  uncategorized_doc_def food_doc_def orphan_doc_def ledger_entry_def january_ledger_def

lemmas report_examples =
  document_defs empty_db_def report_db_def orphan_db_def ledger_db_def offset_db_def

lemmas breakdown_eval =
  get_expenses_by_category_def or_else_def Let_def group_by_category_def expense_entries_def
  category_name_of_def category_map_of_def truthy_def to_list_def sort_reverse_def

lemmas isoformat_eval =
  isoformat_def zero_pad_def decimal.simps digit_char_def format_offset_def char_of_eq_iff

lemma isoformat_examples:
  "isoformat first_jan_2024 = ''2024-01-01T00:00:00+00:00''"
  "isoformat first_feb_2024 = ''2024-02-01T00:00:00+00:00''"
  "isoformat half_past_midnight_cet = ''2024-02-01T00:30:00+01:00''"
  "isoformat noon_15_jan = ''2024-01-15T12:00:00+00:00''"
  "isoformat (noon_15_jan\<lparr>dt_microsecond := 250000\<rparr>) = ''2024-01-15T12:00:00.250000+00:00''"
  by (simp_all add: isoformat_eval first_jan_2024_def first_feb_2024_def
        half_past_midnight_cet_def noon_15_jan_def utc_def)

lemma date_range_january:
  "date_range 2024 (Suc 0) = Some (first_jan_2024, first_feb_2024)"
  by (simp add: date_range_def first_of_month_def datetime_valid_def days_in_month_def
        is_leap_def first_jan_2024_def first_feb_2024_def)

lemmas calendar_eval =
  in_month_def in_interval_def instant_def toordinal_def days_before_year_def
  days_before_month_def is_leap_def month_start_def next_month_start_def datetime_valid_def
  days_in_month_def

text \<open>
  C5, as the code has it. The claim as stated fails for a \<open>transaction_date\<close> with
  an offset other than UTC: the store keeps the ISO-8601 text of the date and the query
  compares texts. An income dated 2024-02-01T00:30:00+01:00 lies in January on the time
  line (it is 23:30 UTC on 31 January), yet the summary of January does not count it and
  the summary of February does.
\<close>

theorem offset_date_counterexample:
  "t_user_id (ledger_entry ''t1'' ''u1'' True (201 / 2) INCOME half_past_midnight_cet) = ''u1'' \<and>
   t_is_active (ledger_entry ''t1'' ''u1'' True (201 / 2) INCOME half_past_midnight_cet) \<and>
   datetime_valid half_past_midnight_cet \<and>
   in_month 2024 1 half_past_midnight_cet \<and>
   get_financial_summary offset_db ''u1'' (Some 1) (Some 2024) noon_15_jan
     = Inr \<lparr>fs_total_income = 0, fs_total_expense = 0, fs_net_balance = 0,
            fs_transaction_count = 0, fs_month = 1, fs_year = 2024\<rparr> \<and>
   get_financial_summary offset_db ''u1'' (Some 2) (Some 2024) noon_15_jan
     = Inr \<lparr>fs_total_income = 201 / 2, fs_total_expense = 0, fs_net_balance = 201 / 2,
            fs_transaction_count = 1, fs_month = 2, fs_year = 2024\<rparr>"
proof -
  have d: "date_range 2024 2 = Some (first_feb_2024, month_start 2024 3)"
    by (simp add: date_range_def first_of_month_def datetime_valid_def days_in_month_def
          is_leap_def first_feb_2024_def month_start_def)
  have n: "isoformat noon_15_jan = ''2024-01-15T12:00:00+00:00''"
    by (rule isoformat_examples)
  have i: "isoformat (month_start 2024 3) = ''2024-03-01T00:00:00+00:00''"
    by (simp add: isoformat_eval month_start_def)
  have "in_month 2024 1 half_past_midnight_cet"
    by (simp add: calendar_eval half_past_midnight_cet_def)
  moreover have "datetime_valid half_past_midnight_cet"
    by (simp add: calendar_eval half_past_midnight_cet_def)
  moreover have "get_financial_summary offset_db ''u1'' (Some 1) (Some 2024) noon_15_jan
     = Inr \<lparr>fs_total_income = 0, fs_total_expense = 0, fs_net_balance = 0,
            fs_transaction_count = 0, fs_month = 1, fs_year = 2024\<rparr>"
    by (simp add: get_financial_summary_def or_else_def date_range_january in_date_range_def
          isoformat_examples offset_db_def ledger_entry_def model_dump_def to_list_def
          test_user_def Let_def)
  moreover have "get_financial_summary offset_db ''u1'' (Some 2) (Some 2024) noon_15_jan
     = Inr \<lparr>fs_total_income = 201 / 2, fs_total_expense = 0, fs_net_balance = 201 / 2,
            fs_transaction_count = 1, fs_month = 2, fs_year = 2024\<rparr>"
    by (simp add: get_financial_summary_def or_else_def d i in_date_range_def
          isoformat_examples offset_db_def ledger_entry_def model_dump_def to_list_def
          test_user_def Let_def)
  ultimately show ?thesis by (simp add: ledger_entry_def)
qed

text \<open>
  C5, amended. Let the stored transactions be the documents of transactions whose
  \<open>transaction_date\<close>, for the active ones of the user, is a valid datetime with
  offset +00:00, and let at most 10000 of the user's active transactions lie in the month
  (the query reads no more than 10000 documents). Then for valid query parameters the
  summary is never an error and selects exactly the user's active transactions whose
  \<open>transaction_date\<close> lies in the half-open interval from the first instant of
  the month to the first instant of the next month (December rolling into January of the
  next year); \<open>total_income\<close> and \<open>total_expense\<close> are the sums of the
  amounts of the selected income and expense transactions, \<open>net_balance\<close> their
  difference, and \<open>transaction_count\<close> the number of all selected transactions,
  transfers included. With nothing selected all four are zero.
\<close>

theorem monthly_summary_of_utc_ledger:
  assumes "Query_valid month year" "datetime_valid now" "dt_year now \<le> 9998"
    and "transactions db = map model_dump ts"
    and "\<forall>t \<in> set ts. t_user_id t = uid \<and> t_is_active t \<longrightarrow>
           datetime_valid (t_transaction_date t) \<and> dt_tzinfo (t_transaction_date t) = Some 0"
    and "length (selected_in_month ts uid (or_else year (dt_year now))
                   (or_else month (dt_month now))) \<le> 10000"
  shows "get_financial_summary db uid month year now =
         (let target_month = or_else month (dt_month now);
              target_year = or_else year (dt_year now);
              selected = selected_in_month ts uid target_year target_month;
              total_income = sum_list (map t_amount (filter (\<lambda>t. t_type t = INCOME) selected));
              total_expense = sum_list (map t_amount (filter (\<lambda>t. t_type t = EXPENSE) selected))
          in Inr \<lparr>fs_total_income = total_income, fs_total_expense = total_expense,
                   fs_net_balance = total_income - total_expense,
                   fs_transaction_count = length selected,
                   fs_month = target_month, fs_year = target_year\<rparr>)"
proof -
  let ?m = "or_else month (dt_month now)" and ?y = "or_else year (dt_year now)"
  from target_in_range[OF assms(1-3)]
  have r: "1 \<le> ?m" "?m \<le> 12" "1 \<le> ?y" "?y \<le> 9998" by simp_all
  let ?sel = "selected_in_month ts uid ?y ?m"
  have "to_list 10000
          (filter (\<lambda>t. t_user_id t = uid \<and> t_is_active t \<and>
                        in_date_range (month_start ?y ?m) (next_month_start ?y ?m) t)
             (transactions db))
        = map model_dump ?sel"
    unfolding assms(4) summary_selection[OF r assms(5)] using assms(6)
    by (simp add: to_list_def)
  moreover have "sum_list (map t_amount (filter (\<lambda>t. t_type t = ty) (map model_dump ?sel)))
                 = sum_list (map t_amount (filter (\<lambda>t. t_type t = ty) ?sel))" for ty
    by (simp add: filter_map comp_def)
  ultimately show ?thesis
    by (simp add: get_financial_summary_def date_range_eq[OF r(3,4,1,2)] Let_def)
qed

text \<open>
  The ledger of January 2024: the income on the first instant of January is counted, the
  expense on the first instant of February is not, the transfer counts in
  \<open>transaction_count\<close> only; the month and year default to those of the clock; a
  month without transactions gives zeros.
\<close>

theorem monthly_summary_of_utc_ledger_witness:
  "get_financial_summary ledger_db ''u1'' (Some 1) (Some 2024) noon_15_jan
     = Inr \<lparr>fs_total_income = 201 / 2, fs_total_expense = 201 / 4, fs_net_balance = 201 / 4,
            fs_transaction_count = 3, fs_month = 1, fs_year = 2024\<rparr> \<and>
   get_financial_summary ledger_db ''u1'' None None noon_15_jan
     = Inr \<lparr>fs_total_income = 201 / 2, fs_total_expense = 201 / 4, fs_net_balance = 201 / 4,
            fs_transaction_count = 3, fs_month = 1, fs_year = 2024\<rparr> \<and>
   get_financial_summary ledger_db ''u1'' (Some 3) (Some 2024) noon_15_jan
     = Inr \<lparr>fs_total_income = 0, fs_total_expense = 0, fs_net_balance = 0,
            fs_transaction_count = 0, fs_month = 3, fs_year = 2024\<rparr>"
proof -
  have q: "Query_valid (Some 1) (Some 2024)" "Query_valid None None" "Query_valid (Some 3) (Some 2024)"
    by (simp_all add: Query_valid_def)
  have n: "datetime_valid noon_15_jan" "dt_year noon_15_jan \<le> 9998"
    by (simp_all add: calendar_eval noon_15_jan_def utc_def)
  have s: "transactions ledger_db = map model_dump january_ledger"
    by (simp add: ledger_db_def)
  have u: "\<forall>t \<in> set january_ledger. t_user_id t = ''u1'' \<and> t_is_active t \<longrightarrow>
             datetime_valid (t_transaction_date t) \<and> dt_tzinfo (t_transaction_date t) = Some 0"
    by (simp add: report_examples calendar_eval first_jan_2024_def first_feb_2024_def
          noon_15_jan_def utc_def)
  have l: "length (selected_in_month january_ledger ''u1'' y m) \<le> 10000" for y m
    by (simp add: selected_in_month_def january_ledger_def le_trans[OF length_filter_le])
  have jan: "selected_in_month january_ledger ''u1'' 2024 (Suc 0) =
       [ledger_entry ''t1'' ''u1'' True (201 / 2) INCOME first_jan_2024,
        ledger_entry ''t2'' ''u1'' True (201 / 4) EXPENSE noon_15_jan,
        ledger_entry ''t3'' ''u1'' True 75 TRANSFER (noon_15_jan\<lparr>dt_microsecond := 250000\<rparr>)]"
    by (simp add: selected_in_month_def report_examples calendar_eval first_jan_2024_def
          first_feb_2024_def noon_15_jan_def utc_def)
  have mar: "selected_in_month january_ledger ''u1'' 2024 3 = []"
    by (simp add: selected_in_month_def report_examples calendar_eval first_jan_2024_def
          first_feb_2024_def noon_15_jan_def utc_def)
  have nm: "dt_month noon_15_jan = Suc 0" "dt_year noon_15_jan = 2024"
    by (simp_all add: noon_15_jan_def)
  from monthly_summary_of_utc_ledger[OF q(1) n s u l]
       monthly_summary_of_utc_ledger[OF q(2) n s u l]
       monthly_summary_of_utc_ledger[OF q(3) n s u l]
  show ?thesis
    by (simp add: or_else_def nm jan mar Let_def ledger_entry_def)
qed



text \<open>
  C7, as the code has it. The claim as stated fails for a soft-deleted category: the
  report reads the categories of the user without a filter on \<open>is_active\<close>, so
  an expense whose category was soft-deleted (here by \<open>delete_category\<close>) is
  reported under the identifier and the name of that category, not as
  \<open>Sem categoria\<close>.
\<close>

theorem soft_deleted_category_counterexample:
  "delete_category (orphan_db\<lparr>categories := [test_category, food_category]\<rparr>) ''u1'' ''c1''
     = (orphan_db, Inr ()) \<and>
   map c_is_active (filter (\<lambda>c. c_id c = ''c1'') (categories orphan_db)) = [False] \<and>
   t_category_id expense_doc = Some ''c1'' \<and>
   get_expenses_by_category orphan_db ''u1'' (Some 1) (Some 2024) noon_15_jan
     = Inr \<lparr>ebc_expenses =
          [\<lparr>ce_category_id = None, ce_category_name = ''Sem categoria'', ce_total_amount = 201 / 2,
             ce_transaction_count = 1, ce_percentage = 50\<rparr>,
           \<lparr>ce_category_id = Some ''gone'', ce_category_name = ''Sem categoria'',
              ce_total_amount = 201 / 4, ce_transaction_count = 1, ce_percentage = 25\<rparr>,
           \<lparr>ce_category_id = Some ''c1'', ce_category_name = ''Test Category'',
              ce_total_amount = 201 / 4, ce_transaction_count = 1, ce_percentage = 25\<rparr>],
        ebc_total_expense = 201\<rparr>"
proof -
  have sel: "expense_transactions orphan_db ''u1'' first_jan_2024 first_feb_2024
               = [uncategorized_doc, orphan_doc, expense_doc]"
    by (simp add: expense_transactions_def in_date_range_def isoformat_examples to_list_def
          report_examples)
  have cats: "categories orphan_db = [test_category\<lparr>c_is_active := False\<rparr>, food_category]"
    by (simp add: orphan_db_def)
  have "get_expenses_by_category orphan_db ''u1'' (Some 1) (Some 2024) noon_15_jan
     = Inr \<lparr>ebc_expenses =
          [\<lparr>ce_category_id = None, ce_category_name = ''Sem categoria'', ce_total_amount = 201 / 2,
             ce_transaction_count = 1, ce_percentage = 50\<rparr>,
           \<lparr>ce_category_id = Some ''gone'', ce_category_name = ''Sem categoria'',
              ce_total_amount = 201 / 4, ce_transaction_count = 1, ce_percentage = 25\<rparr>,
           \<lparr>ce_category_id = Some ''c1'', ce_category_name = ''Test Category'',
              ce_total_amount = 201 / 4, ce_transaction_count = 1, ce_percentage = 25\<rparr>],
        ebc_total_expense = 201\<rparr>"
    by (simp add: breakdown_eval date_range_january sel cats document_defs)
  moreover have "delete_category (orphan_db\<lparr>categories := [test_category, food_category]\<rparr>)
                   ''u1'' ''c1'' = (orphan_db, Inr ())"
    by (simp add: delete_category_def orphan_db_def test_category_def food_category_def)
  ultimately show ?thesis by (simp add: cats document_defs)
qed

text \<open>
  C7, amended. The report reads at most 10000 expense documents (the first, in store
  order, of the user's active expenses whose stored \<open>transaction_date\<close> text lies
  in the text window) and at most 1000 category documents of the user (the first in store
  order, active or soft-deleted). Every expense transaction it reads is reported in the
  group keyed by its own \<open>category_id\<close>. The group of the transactions with no
  category has the display name \<open>Sem categoria\<close>; so has a group whose identifier
  is the identifier of none of the category documents read; any other group carries the
  name of the last category document read with that identifier, also when that category
  is soft-deleted.
\<close>

theorem category_names_in_breakdown:
  assumes "date_range (or_else year (dt_year now)) (or_else month (dt_month now))
             = Some (start_date, end_date)"
  shows "\<exists>r. get_expenses_by_category db uid month year now = Inr r \<and>
           (\<forall>t \<in> set (expense_transactions db uid start_date end_date).
              \<exists>e \<in> set (ebc_expenses r). ce_category_id e = t_category_id t) \<and>
           (\<forall>e \<in> set (ebc_expenses r).
              ce_category_name e =
                (case ce_category_id e of
                   None \<Rightarrow> ''Sem categoria''
                 | Some k \<Rightarrow>
                     (case find_one (\<lambda>c. c_id c = k)
                             (rev (to_list 1000
                                (filter (\<lambda>c. c_user_id c = uid) (categories db)))) of
                        None \<Rightarrow> ''Sem categoria''
                      | Some c \<Rightarrow> c_name c)))"
proof -
  let ?sel = "expense_transactions db uid start_date end_date"
  let ?cats = "to_list 1000 (filter (\<lambda>c. c_user_id c = uid) (categories db))"
  let ?es = "expense_entries (category_map_of ?cats) (group_by_category ?sel)"
  note eq = get_expenses_by_category_eq[OF assms, of db uid]
  have keys: "ce_category_id ` set ?es = t_category_id ` set ?sel"
    using expense_entries_sel(1)[of "category_map_of ?cats" "group_by_category ?sel"]
          group_by_category_keys[of ?sel]
    by (metis set_map)
  have bucket: "\<forall>t \<in> set ?sel. \<exists>e \<in> set ?es. ce_category_id e = t_category_id t"
  proof
    fix t assume "t \<in> set ?sel"
    then have "t_category_id t \<in> ce_category_id ` set ?es" using keys by blast
    then show "\<exists>e \<in> set ?es. ce_category_id e = t_category_id t" by auto
  qed
  have name: "\<forall>e \<in> set ?es. ce_category_name e =
                (case ce_category_id e of
                   None \<Rightarrow> ''Sem categoria''
                 | Some k \<Rightarrow>
                     (case find_one (\<lambda>c. c_id c = k) (rev ?cats) of
                        None \<Rightarrow> ''Sem categoria''
                      | Some c \<Rightarrow> c_name c))"
    by (auto simp: expense_entries_name category_name_of_def category_map_of_rev
             split: option.splits)
  show ?thesis unfolding eq using bucket name by simp
qed

text \<open>
  A transaction without a category, one whose \<open>category_id\<close> names no category
  document, and one whose category is soft-deleted.
\<close>

theorem category_names_in_breakdown_witness:
  "date_range (or_else (Some 2024) (dt_year noon_15_jan)) (or_else (Some 1) (dt_month noon_15_jan))
     = Some (first_jan_2024, first_feb_2024) \<and>
   (\<exists>r. get_expenses_by_category orphan_db ''u1'' (Some 1) (Some 2024) noon_15_jan = Inr r \<and>
        map (\<lambda>e. (ce_category_id e, ce_category_name e)) (ebc_expenses r)
          = [(None, ''Sem categoria''), (Some ''gone'', ''Sem categoria''),
             (Some ''c1'', ''Test Category'')])"
proof -
  have d: "date_range (or_else (Some 2024) (dt_year noon_15_jan))
             (or_else (Some 1) (dt_month noon_15_jan)) = Some (first_jan_2024, first_feb_2024)"
    by (simp add: or_else_def date_range_january)
  have sel: "expense_transactions orphan_db ''u1'' first_jan_2024 first_feb_2024
               = [uncategorized_doc, orphan_doc, expense_doc]"
    by (simp add: expense_transactions_def in_date_range_def isoformat_examples to_list_def
          report_examples)
  have cats: "categories orphan_db = [test_category\<lparr>c_is_active := False\<rparr>, food_category]"
    by (simp add: orphan_db_def)
  have e: "get_expenses_by_category orphan_db ''u1'' (Some 1) (Some 2024) noon_15_jan
     = Inr \<lparr>ebc_expenses =
          [\<lparr>ce_category_id = None, ce_category_name = ''Sem categoria'', ce_total_amount = 201 / 2,
             ce_transaction_count = 1, ce_percentage = 50\<rparr>,
           \<lparr>ce_category_id = Some ''gone'', ce_category_name = ''Sem categoria'',
              ce_total_amount = 201 / 4, ce_transaction_count = 1, ce_percentage = 25\<rparr>,
           \<lparr>ce_category_id = Some ''c1'', ce_category_name = ''Test Category'',
              ce_total_amount = 201 / 4, ce_transaction_count = 1, ce_percentage = 25\<rparr>],
        ebc_total_expense = 201\<rparr>"
    by (simp add: breakdown_eval date_range_january sel cats document_defs)
  from category_names_in_breakdown[OF d, of orphan_db "''u1''"] d e
  show ?thesis by simp
qed

end
